theory Spec2Isabelle
  imports Main "HOL-Library.Word"
begin

section \<open>Shared vocabulary of the two backends\<close>

text \<open>
  The package adapts a frame-oriented WebSocket to Go's \<^verbatim>\<open>net.Conn\<close> byte stream. It has
  two builds of the type \<^verbatim>\<open>Conn\<close>: the native one (build tag \<^verbatim>\<open>!js\<close>, on top of
  gorilla/websocket) and the js/wasm one (\<^verbatim>\<open>conn_browser.go\<close>, on top of the browser's
  WebSocket object). Both are embedded here. Names of the native build are kept as they
  are; the names of the js/wasm build carry the suffix \<open>_js\<close>, since both files declare
  \<^verbatim>\<open>Conn\<close>, \<^verbatim>\<open>Read\<close>, \<^verbatim>\<open>Close\<close>, ...

  A Go \<^verbatim>\<open>error\<close> is a value of \<open>error option\<close>, \<open>None\<close> being \<^verbatim>\<open>nil\<close>. A byte slice
  handed to \<^verbatim>\<open>Read\<close> is represented by its length (its old contents are never looked at) and
  the bytes a read copies into it are returned as a list, so that the count \<^verbatim>\<open>n\<close> of the
  source is the length of that list. Locks are not modelled: every operation below is one
  uninterrupted call. The addresses of a connection, and the methods that only hand them
  out, are left out.
\<close>

type_synonym byte = "8 word"

type_synonym time = int
  \<comment> \<open>\<^verbatim>\<open>time.Time\<close> as an instant in nanoseconds; \<^verbatim>\<open>t.Add(d)\<close> is \<open>t + d\<close>\<close>

datatype error =
    EOF                       \<comment> \<open>\<^verbatim>\<open>io.EOF\<close>\<close>
  | CloseError int string     \<comment> \<open>\<^verbatim>\<open>*ws.CloseError{Code, Text}\<close>\<close>
  | errConnectionClosed       \<comment> \<open>\<^verbatim>\<open>errors.New("connection is closed")\<close>\<close>
  | Errorf string             \<comment> \<open>the result of \<^verbatim>\<open>fmt.Errorf\<close>, with its formatted message\<close>
  | OtherError string         \<comment> \<open>any other error value of the transport\<close>
  | MultiError "error list"   \<comment> \<open>several errors in one value, as multierr builds them\<close>

datatype 'a outcome =
    Return 'a
  | Panic                     \<comment> \<open>a method call through a nil \<^verbatim>\<open>io.Reader\<close>\<close>

section \<open>Native backend\<close>

subsection \<open>What the backend calls into\<close>

text \<open>
  gorilla/websocket and multierr are not part of the repository. The operations of
  \<^verbatim>\<open>*ws.Conn\<close> that the backend uses are taken as parameters: \<open>'w\<close> is the state of the
  underlying connection (socket, buffers, deadlines, peer), \<open>'r\<close> the readers that
  \<^verbatim>\<open>NextReader\<close> hands out, and every operation returns its result together with the next
  state of the connection. Every theorem of this section holds for all such operations,
  hence also for operations that keep a log of the calls made to them in \<open>'w\<close>.
  \<open>GracefulCloseTimeout\<close> is a package variable declared outside the given sources.
\<close>

record ('w, 'r) deps =
  NextReader :: "'w \<Rightarrow> (error + int \<times> 'r) \<times> 'w"
  ReaderRead :: "'r \<Rightarrow> nat \<Rightarrow> 'w \<Rightarrow> (byte list \<times> error option) \<times> 'w"
  WriteMessage :: "int \<Rightarrow> byte list \<Rightarrow> 'w \<Rightarrow> error option \<times> 'w"
  WriteControl :: "int \<Rightarrow> byte list \<Rightarrow> time \<Rightarrow> 'w \<Rightarrow> error option \<times> 'w"
  ConnClose :: "'w \<Rightarrow> error option \<times> 'w"
  ConnSetReadDeadline :: "time \<Rightarrow> 'w \<Rightarrow> error option \<times> 'w"
  ConnSetWriteDeadline :: "time \<Rightarrow> 'w \<Rightarrow> error option \<times> 'w"
  FormatCloseMessage :: "int \<Rightarrow> string \<Rightarrow> byte list"
  Combine :: "error option \<Rightarrow> error option \<Rightarrow> error option"
  GracefulCloseTimeout :: int

text \<open>Constants of gorilla/websocket (RFC 6455 opcodes and close codes).\<close>

definition BinaryMessage :: int where "BinaryMessage = 2"
definition CloseMessage :: int where "CloseMessage = 8"
definition CloseNormalClosure :: int where "CloseNormalClosure = 1000"

subsection \<open>The connection\<close>

record ('w, 'r) Conn =
  ws_Conn :: 'w                 \<comment> \<open>the embedded \<^verbatim>\<open>*ws.Conn\<close>\<close>
  DefaultMessageType :: int
  reader :: "'r option"         \<comment> \<open>the frame cursor; \<open>None\<close> is \<^verbatim>\<open>nil\<close>\<close>
  closeOnce :: bool             \<comment> \<open>\<^verbatim>\<open>sync.Once\<close>: has \<^verbatim>\<open>Do\<close> run its function\<close>

definition NewConn :: "'w \<Rightarrow> ('w, 'r) Conn" where
  "NewConn raw =
     \<lparr>ws_Conn = raw, DefaultMessageType = BinaryMessage, reader = None, closeOnce = False\<rparr>"

subsection \<open>Read\<close>

definition prepNextReader ::
  "('w, 'r) deps \<Rightarrow> ('w, 'r) Conn \<Rightarrow> error option \<times> ('w, 'r) Conn" where
  "prepNextReader d c =
     (case NextReader d (ws_Conn c) of
        (Inl err, w) \<Rightarrow>
          (case err of
             CloseError code text \<Rightarrow>
               if code = 1000 \<or> code = 1005 then (Some EOF, c\<lparr>ws_Conn := w\<rparr>)
               else (Some err, c\<lparr>ws_Conn := w\<rparr>)
           | _ \<Rightarrow> (Some err, c\<lparr>ws_Conn := w\<rparr>))
      | (Inr (t, r), w) \<Rightarrow>
          if t = CloseMessage then (Some EOF, c\<lparr>ws_Conn := w\<rparr>)
          else (None, c\<lparr>ws_Conn := w, reader := Some r\<rparr>))"

text \<open>
  The \<^verbatim>\<open>for\<close> loop of \<^verbatim>\<open>Read\<close>. It has no bound (a peer may send empty frames for
  ever), so it is a partial function: \<open>None\<close> means that the call does not return.
\<close>

partial_function (option) read_loop ::
  "('w, 'r) deps \<Rightarrow> nat \<Rightarrow> ('w, 'r) Conn
     \<Rightarrow> ((byte list \<times> error option) outcome \<times> ('w, 'r) Conn) option" where
  "read_loop d b c =
     (case reader c of
        None \<Rightarrow> Some (Panic, c)
      | Some r \<Rightarrow>
          (case ReaderRead d r b (ws_Conn c) of
             ((bs, err), w) \<Rightarrow>
               if err = Some EOF then
                 if length bs > 0 then Some (Return (bs, None), c\<lparr>ws_Conn := w, reader := None\<rparr>)
                 else
                   (case prepNextReader d (c\<lparr>ws_Conn := w, reader := None\<rparr>) of
                      (Some err', c') \<Rightarrow> Some (Return ([], Some err'), c')
                    | (None, c') \<Rightarrow> read_loop d b c')
               else Some (Return (bs, err), c\<lparr>ws_Conn := w\<rparr>)))"

definition Read ::
  "('w, 'r) deps \<Rightarrow> nat \<Rightarrow> ('w, 'r) Conn
     \<Rightarrow> ((byte list \<times> error option) outcome \<times> ('w, 'r) Conn) option" where
  "Read d b c =
     (if reader c = None then
        (case prepNextReader d c of
           (Some err, c') \<Rightarrow> Some (Return ([], Some err), c')
         | (None, c') \<Rightarrow> read_loop d b c')
      else read_loop d b c)"

subsection \<open>Write, Close and the deadlines\<close>

definition Write ::
  "('w, 'r) deps \<Rightarrow> byte list \<Rightarrow> ('w, 'r) Conn \<Rightarrow> (nat \<times> error option) \<times> ('w, 'r) Conn" where
  "Write d b c =
     (case WriteMessage d (DefaultMessageType c) b (ws_Conn c) of
        (Some err, w) \<Rightarrow> ((0, Some err), c\<lparr>ws_Conn := w\<rparr>)
      | (None, w) \<Rightarrow> ((length b, None), c\<lparr>ws_Conn := w\<rparr>))"

text \<open>\<open>now\<close> is what \<^verbatim>\<open>time.Now()\<close> returns inside the call.\<close>

definition Close ::
  "('w, 'r) deps \<Rightarrow> time \<Rightarrow> ('w, 'r) Conn \<Rightarrow> error option \<times> ('w, 'r) Conn" where
  "Close d now c =
     (if closeOnce c then (None, c)
      else
        (case WriteControl d CloseMessage (FormatCloseMessage d CloseNormalClosure ''closed'')
                (now + GracefulCloseTimeout d) (ws_Conn c) of
           (err1, w1) \<Rightarrow>
             (case ConnClose d w1 of
                (err2, w2) \<Rightarrow> (Combine d err1 err2, c\<lparr>ws_Conn := w2, closeOnce := True\<rparr>))))"

definition SetReadDeadline ::
  "('w, 'r) deps \<Rightarrow> time \<Rightarrow> ('w, 'r) Conn \<Rightarrow> error option \<times> ('w, 'r) Conn" where
  "SetReadDeadline d t c =
     (case ConnSetReadDeadline d t (ws_Conn c) of (err, w) \<Rightarrow> (err, c\<lparr>ws_Conn := w\<rparr>))"

definition SetWriteDeadline ::
  "('w, 'r) deps \<Rightarrow> time \<Rightarrow> ('w, 'r) Conn \<Rightarrow> error option \<times> ('w, 'r) Conn" where
  "SetWriteDeadline d t c =
     (case ConnSetWriteDeadline d t (ws_Conn c) of (err, w) \<Rightarrow> (err, c\<lparr>ws_Conn := w\<rparr>))"

definition SetDeadline ::
  "('w, 'r) deps \<Rightarrow> time \<Rightarrow> ('w, 'r) Conn \<Rightarrow> error option \<times> ('w, 'r) Conn" where
  "SetDeadline d t c =
     (case SetReadDeadline d t c of
        (Some err, c') \<Rightarrow> (Some err, c')
      | (None, c') \<Rightarrow> SetWriteDeadline d t c')"

subsection \<open>A scripted transport\<close>

text \<open>
  One instance of the parameters, used to run the backend on concrete traffic. The peer's
  side is a script: \<open>pending\<close> lists what successive calls of \<^verbatim>\<open>NextReader\<close> will find, a
  data or control frame with its payload or an error. The reader of a message hands out
  its payload in pieces no longer than the caller's buffer and reports \<^verbatim>\<open>io.EOF\<close> once
  the payload is used up, as gorilla's message reader does; with \<open>eager\<close> set it reports
  \<^verbatim>\<open>io.EOF\<close> together with the last piece, which \<^verbatim>\<open>io.Reader\<close> also allows. A read
  error of the script stays (gorilla latches it), and a script that is used up reads as a
  timeout. Asked to fill a buffer of length zero while payload is left, the reader copies
  nothing and reports no error, as \<^verbatim>\<open>io.Reader\<close> has it for such a buffer and as
  gorilla's reader does. The fault fields make the corresponding calls fail; everything
  written, and both deadlines, are recorded.
\<close>

datatype inbound = Frame int "byte list" | Fail error

record wire =
  pending :: "inbound list"
  remaining :: "byte list"
  eager :: bool
  sent :: "(int \<times> byte list) list"
  control :: "(int \<times> byte list \<times> time) list"
  closes :: nat
  readDeadline :: "time option"
  writeDeadline :: "time option"
  writeFault :: "error option"
  closeFault :: "error option"
  readDeadlineFault :: "error option"
  writeDeadlineFault :: "error option"

definition wire_NextReader :: "wire \<Rightarrow> (error + int \<times> unit) \<times> wire" where
  "wire_NextReader w =
     (case pending w of
        [] \<Rightarrow> (Inl (OtherError ''i/o timeout''), w)
      | Frame t p # rest \<Rightarrow> (Inr (t, ()), w\<lparr>pending := rest, remaining := p\<rparr>)
      | Fail e # rest \<Rightarrow> (Inl e, w))"

definition wire_ReaderRead :: "unit \<Rightarrow> nat \<Rightarrow> wire \<Rightarrow> (byte list \<times> error option) \<times> wire" where
  "wire_ReaderRead r n w =
     (if remaining w = [] then (([], Some EOF), w)
      else if eager w \<and> length (remaining w) \<le> n then
        ((remaining w, Some EOF), w\<lparr>remaining := []\<rparr>)
      else ((take n (remaining w), None), w\<lparr>remaining := drop n (remaining w)\<rparr>))"

definition wire_WriteMessage :: "int \<Rightarrow> byte list \<Rightarrow> wire \<Rightarrow> error option \<times> wire" where
  "wire_WriteMessage t p w =
     (case writeFault w of
        Some e \<Rightarrow> (Some e, w)
      | None \<Rightarrow> (None, w\<lparr>sent := sent w @ [(t, p)]\<rparr>))"

definition wire_WriteControl :: "int \<Rightarrow> byte list \<Rightarrow> time \<Rightarrow> wire \<Rightarrow> error option \<times> wire" where
  "wire_WriteControl t p deadline w =
     (case writeFault w of
        Some e \<Rightarrow> (Some e, w)
      | None \<Rightarrow> (None, w\<lparr>control := control w @ [(t, p, deadline)]\<rparr>))"

definition wire_Close :: "wire \<Rightarrow> error option \<times> wire" where
  "wire_Close w = (closeFault w, w\<lparr>closes := Suc (closes w)\<rparr>)"

definition wire_SetReadDeadline :: "time \<Rightarrow> wire \<Rightarrow> error option \<times> wire" where
  "wire_SetReadDeadline t w =
     (case readDeadlineFault w of
        Some e \<Rightarrow> (Some e, w)
      | None \<Rightarrow> (None, w\<lparr>readDeadline := Some t\<rparr>))"

definition wire_SetWriteDeadline :: "time \<Rightarrow> wire \<Rightarrow> error option \<times> wire" where
  "wire_SetWriteDeadline t w =
     (case writeDeadlineFault w of
        Some e \<Rightarrow> (Some e, w)
      | None \<Rightarrow> (None, w\<lparr>writeDeadline := Some t\<rparr>))"

definition wire_FormatCloseMessage :: "int \<Rightarrow> string \<Rightarrow> byte list" where
  "wire_FormatCloseMessage closeCode text =
     (if closeCode = 1005 then []
      else [of_int (closeCode div 256), of_int (closeCode mod 256)]
             @ map (\<lambda>ch. of_nat (of_char ch)) text)"

definition wire_Combine :: "error option \<Rightarrow> error option \<Rightarrow> error option" where
  "wire_Combine e1 e2 =
     (case e1 of
        None \<Rightarrow> e2
      | Some a \<Rightarrow> (case e2 of None \<Rightarrow> Some a | Some b \<Rightarrow> Some (MultiError [a, b])))"

definition wire_deps :: "(wire, unit) deps" where
  "wire_deps =
     \<lparr>NextReader = wire_NextReader, ReaderRead = wire_ReaderRead,
      WriteMessage = wire_WriteMessage, WriteControl = wire_WriteControl,
      ConnClose = wire_Close, ConnSetReadDeadline = wire_SetReadDeadline,
      ConnSetWriteDeadline = wire_SetWriteDeadline,
      FormatCloseMessage = wire_FormatCloseMessage, Combine = wire_Combine,
      GracefulCloseTimeout = 100000000\<rparr>"

definition wire0 :: wire where
  "wire0 =
     \<lparr>pending = [], remaining = [], eager = False, sent = [], control = [], closes = 0,
      readDeadline = None, writeDeadline = None, writeFault = None, closeFault = None,
      readDeadlineFault = None, writeDeadlineFault = None\<rparr>"

text \<open>
  A caller that performs successive reads into a buffer of \<open>b\<close> bytes: the results of
  \<open>k\<close> calls of \<^verbatim>\<open>Read\<close>, in order. It stops early where a call does not return.
\<close>

fun reads ::
  "('w, 'r) deps \<Rightarrow> nat \<Rightarrow> nat \<Rightarrow> ('w, 'r) Conn \<Rightarrow> (byte list \<times> error option) outcome list" where
  "reads d b 0 c = []"
| "reads d b (Suc k) c =
     (case Read d b c of
        None \<Rightarrow> []
      | Some (res, c') \<Rightarrow> res # reads d b k c')"

text \<open>
  A graceful close, as the peer's script shows it: the close error gorilla reports for the
  status codes 1000 and 1005, or a close control frame handed out as a frame.
\<close>

fun graceful :: "inbound \<Rightarrow> bool" where
  "graceful (Fail (CloseError code text)) = (code = 1000 \<or> code = 1005)"
| "graceful (Frame t p) = (t = CloseMessage)"
| "graceful (Fail e) = False"

section \<open>js/wasm backend\<close>

subsection \<open>The host: the browser's WebSocket object and its events\<close>

text \<open>
  \<^verbatim>\<open>syscall/js\<close> and the browser are not part of the repository either. The WebSocket
  object behind the embedded \<^verbatim>\<open>js.Value\<close> is modelled by what the backend reads of it
  (\<^verbatim>\<open>readyState\<close>), what it sets (\<^verbatim>\<open>binaryType\<close>), the event types that have a listener
  attached, and a log of the methods called on it. \<^verbatim>\<open>close()\<close> moves an object that is
  neither closing nor closed to the closing state, as the WebSocket API says.
\<close>

definition webSocketStateConnecting :: int where "webSocketStateConnecting = 0"
definition webSocketStateOpen :: int where "webSocketStateOpen = 1"
definition webSocketStateClosing :: int where "webSocketStateClosing = 2"
definition webSocketStateClosed :: int where "webSocketStateClosed = 3"

record WebSocket =
  readyState :: int
  binaryType :: string
  listeners :: "string list"
  calls :: "string list list"

definition Call_close :: "WebSocket \<Rightarrow> WebSocket" where
  "Call_close w =
     w\<lparr>readyState :=
         (if readyState w = webSocketStateClosing \<or> readyState w = webSocketStateClosed
          then readyState w else webSocketStateClosing),
       calls := calls w @ [[''close'']]\<rparr>"

definition Call_addEventListener :: "string \<Rightarrow> WebSocket \<Rightarrow> WebSocket" where
  "Call_addEventListener ty w =
     w\<lparr>listeners := List.insert ty (listeners w),
       calls := calls w @ [[''addEventListener'', ty]]\<rparr>"

definition Call_removeEventListener :: "string \<Rightarrow> WebSocket \<Rightarrow> WebSocket" where
  "Call_removeEventListener ty w =
     w\<lparr>listeners := removeAll ty (listeners w),
       calls := calls w @ [[''removeEventListener'', ty]]\<rparr>"

text \<open>
  The event object a handler receives, as far as \<^verbatim>\<open>errorEventToError\<close> looks at it:
  the properties \<^verbatim>\<open>type\<close>, \<^verbatim>\<open>reason\<close> and \<^verbatim>\<open>code\<close> (\<open>None\<close> is \<^verbatim>\<open>undefined\<close>) and the
  name of the value's JavaScript type.
\<close>

record JSValue =
  Get_type :: "string option"
  Get_reason :: "string option"
  Get_code :: "int option"
  Type_String :: string

datatype event = MessageEvent "byte list" | CloseEvent JSValue | ErrorEvent JSValue

text \<open>\<^verbatim>\<open>fmt.Sprintf("%d", code)\<close>: a decimal numeral.\<close>

fun digits :: "nat \<Rightarrow> string" where
  "digits n =
     (if n < 10 then [''0123456789'' ! n]
      else digits (n div 10) @ [''0123456789'' ! (n mod 10)])"

definition Sprintf_d :: "int \<Rightarrow> string" where
  "Sprintf_d i = (if i < 0 then CHR ''-'' # digits (nat (- i)) else digits (nat i))"

text \<open>
  \<^verbatim>\<open>bytes.Buffer.Read\<close> on the unread bytes of the buffer: the bytes copied, the error and
  the bytes left.
\<close>

definition Buffer_Read :: "nat \<Rightarrow> byte list \<Rightarrow> (byte list \<times> error option) \<times> byte list" where
  "Buffer_Read b buf =
     (if buf = [] then (([], if b = 0 then None else Some EOF), [])
      else ((take b buf, None), drop b buf))"

subsection \<open>The connection\<close>

text \<open>
  \<^verbatim>\<open>Write\<close> and \<^verbatim>\<open>waitForOpen\<close> of this backend are not embedded; no statement below is
  about them, and none of the embedded operations calls them.
\<close>

datatype Func = Live | Released
  \<comment> \<open>a \<^verbatim>\<open>js.Func\<close>, before and after \<^verbatim>\<open>Release()\<close>\<close>

record Conn_js =
  js_Value :: WebSocket
  messageHandler :: "Func option"
  closeHandler :: "Func option"
  errorHandler :: "Func option"
  currData :: "byte list"
  closeOnce_js :: bool            \<comment> \<open>\<^verbatim>\<open>sync.Once\<close>: has \<^verbatim>\<open>Do\<close> run its function\<close>
  closeSignal :: bool             \<comment> \<open>the channel has been closed\<close>
  dataSignal :: bool              \<comment> \<open>the one slot of the channel is filled\<close>
  firstErr :: "error option"

definition errorEventToError :: "JSValue \<Rightarrow> error" where
  "errorEventToError val =
     (let typ = (case Get_type val of Some gotType \<Rightarrow> gotType | None \<Rightarrow> Type_String val);
          fromCode =
            (case Get_code val of
               None \<Rightarrow> []
             | Some code \<Rightarrow>
                 if code = 1006 then ''code 1006: connection unexpectedly closed''
                 else ''unexpected code: '' @ Sprintf_d code);
          reason =
            (case Get_reason val of
               Some gotReason \<Rightarrow> if gotReason \<noteq> [] then gotReason else fromCode
             | None \<Rightarrow> fromCode)
      in Errorf (''JavaScript error: ('' @ typ @ '') '' @ reason))"

definition checkOpen :: "Conn_js \<Rightarrow> error option" where
  "checkOpen c =
     (let state = readyState (js_Value c)
      in if state = webSocketStateClosed \<or> state = webSocketStateClosing
         then Some errConnectionClosed else None)"

definition readAfterErr :: "nat \<Rightarrow> Conn_js \<Rightarrow> (byte list \<times> error option) \<times> Conn_js" where
  "readAfterErr b c =
     (case Buffer_Read b (currData c) of
        ((bs, err), rest) \<Rightarrow>
          if length bs = 0 then
            (if firstErr c \<noteq> None then (([], firstErr c), c\<lparr>currData := rest\<rparr>)
             else (([], Some EOF), c\<lparr>currData := rest\<rparr>))
          else ((bs, err), c\<lparr>currData := rest\<rparr>))"

definition signalClose :: "Conn_js \<Rightarrow> Conn_js" where
  "signalClose c =
     (if closeOnce_js c then c else c\<lparr>closeOnce_js := True, closeSignal := True\<rparr>)"

definition releaseHandlers :: "Conn_js \<Rightarrow> Conn_js" where
  "releaseHandlers c =
     (let c1 = (if messageHandler c \<noteq> None
                then c\<lparr>js_Value := Call_removeEventListener ''message'' (js_Value c),
                       messageHandler := Some Released\<rparr>
                else c);
          c2 = (if closeHandler c1 \<noteq> None
                then c1\<lparr>js_Value := Call_removeEventListener ''close'' (js_Value c1),
                        closeHandler := Some Released\<rparr>
                else c1)
      in if errorHandler c2 \<noteq> None
         then c2\<lparr>js_Value := Call_removeEventListener ''error'' (js_Value c2),
                 errorHandler := Some Released\<rparr>
         else c2)"

definition Close_js :: "Conn_js \<Rightarrow> error option \<times> Conn_js" where
  "Close_js c =
     (let c1 = signalClose c;
          c2 = c1\<lparr>js_Value := Call_close (js_Value c1)\<rparr>
      in (None, releaseHandlers c2))"

definition SetDeadline_js :: "time \<Rightarrow> Conn_js \<Rightarrow> error option \<times> Conn_js" where
  "SetDeadline_js t c = (None, c)"

definition SetReadDeadline_js :: "time \<Rightarrow> Conn_js \<Rightarrow> error option \<times> Conn_js" where
  "SetReadDeadline_js t c = (None, c)"

definition SetWriteDeadline_js :: "time \<Rightarrow> Conn_js \<Rightarrow> error option \<times> Conn_js" where
  "SetWriteDeadline_js t c = (None, c)"

subsection \<open>The handlers that \<^verbatim>\<open>setUpHandlers\<close> installs\<close>

text \<open>
  Each handler is modelled by its effect on the connection. The close handler does its
  work in a goroutine of its own; the three steps of that goroutine are taken as one.
\<close>

definition on_message :: "byte list \<Rightarrow> Conn_js \<Rightarrow> Conn_js" where
  "on_message data c = c\<lparr>currData := currData c @ data, dataSignal := True\<rparr>"

definition on_close :: "JSValue \<Rightarrow> Conn_js \<Rightarrow> Conn_js" where
  "on_close val c = releaseHandlers ((signalClose c)\<lparr>firstErr := Some (errorEventToError val)\<rparr>)"

definition on_error :: "JSValue \<Rightarrow> Conn_js \<Rightarrow> Conn_js" where
  "on_error val c = snd (Close_js c)"

definition setUpHandlers :: "Conn_js \<Rightarrow> Conn_js" where
  "setUpHandlers c =
     (if messageHandler c \<noteq> None then c
      else
        c\<lparr>js_Value :=
            Call_addEventListener ''error''
              (Call_addEventListener ''close''
                (Call_addEventListener ''message'' (js_Value c))),
          messageHandler := Some Live, closeHandler := Some Live, errorHandler := Some Live\<rparr>)"

definition NewConn_js :: "WebSocket \<Rightarrow> Conn_js" where
  "NewConn_js raw =
     setUpHandlers
       \<lparr>js_Value = raw\<lparr>binaryType := ''arraybuffer''\<rparr>,
        messageHandler = None, closeHandler = None, errorHandler = None,
        currData = [], closeOnce_js = False, closeSignal = False, dataSignal = False,
        firstErr = None\<rparr>"

text \<open>
  The host delivers an event to the listener attached for its type, if there is one. A
  socket is in the closed state when its close event is fired.
\<close>

definition dispatch :: "event \<Rightarrow> Conn_js \<Rightarrow> Conn_js" where
  "dispatch e c =
     (case e of
        MessageEvent data \<Rightarrow>
          if ''message'' \<in> set (listeners (js_Value c)) then on_message data c else c
      | CloseEvent val \<Rightarrow>
          (let c' = c\<lparr>js_Value := (js_Value c)\<lparr>readyState := webSocketStateClosed\<rparr>\<rparr>
           in if ''close'' \<in> set (listeners (js_Value c)) then on_close val c' else c')
      | ErrorEvent val \<Rightarrow>
          if ''error'' \<in> set (listeners (js_Value c)) then on_error val c else c)"

subsection \<open>Read\<close>

text \<open>
  \<^verbatim>\<open>Read\<close> suspends in a \<^verbatim>\<open>select\<close> on the two channels. What happens there is not
  decided by the connection alone, so the loop takes a schedule that says, for each
  time the \<^verbatim>\<open>select\<close> is reached, which way it goes: it receives from \<^verbatim>\<open>dataSignal\<close>
  (possible when the slot is filled), it receives from \<^verbatim>\<open>closeSignal\<close> (possible when that
  channel is closed; Go picks either when both are possible), or, with neither possible,
  the goroutine sleeps and the host delivers an event before the \<^verbatim>\<open>select\<close> is looked
  at again. The result is \<open>None\<close> when the schedule asks for a step that is not possible,
  and when it ends with the call still suspended.
\<close>

datatype wake = TakeData | TakeClose | Host event

fun Read_loop_js ::
  "nat \<Rightarrow> wake list \<Rightarrow> Conn_js \<Rightarrow> ((byte list \<times> error option) \<times> Conn_js) option" where
  "Read_loop_js b sched c =
     (case Buffer_Read b (currData c) of
        ((bs, err), rest) \<Rightarrow>
          if length bs \<noteq> 0 then Some ((bs, None), c\<lparr>currData := rest\<rparr>)
          else
            (case sched of
               [] \<Rightarrow> None
             | TakeData # sched' \<Rightarrow>
                 if dataSignal c
                 then Read_loop_js b sched' (c\<lparr>currData := rest, dataSignal := False\<rparr>)
                 else None
             | TakeClose # sched' \<Rightarrow>
                 if closeSignal c then Some (readAfterErr b (c\<lparr>currData := rest\<rparr>)) else None
             | Host e # sched' \<Rightarrow>
                 if \<not> dataSignal c \<and> \<not> closeSignal c
                 then Read_loop_js b sched' (dispatch e (c\<lparr>currData := rest\<rparr>))
                 else None))"

definition Read_js ::
  "nat \<Rightarrow> wake list \<Rightarrow> Conn_js \<Rightarrow> ((byte list \<times> error option) \<times> Conn_js) option" where
  "Read_js b sched c =
     (if checkOpen c \<noteq> None then Some (readAfterErr b c) else Read_loop_js b sched c)"

subsection \<open>A socket and a close event to run the backend on\<close>

text \<open>
  An open socket on which nothing has been called yet, and the event a browser fires when
  the peer has closed the connection cleanly: type \<^verbatim>\<open>close\<close>, status code 1000, empty reason.
\<close>

definition sock0 :: WebSocket where
  "sock0 = \<lparr>readyState = webSocketStateOpen, binaryType = ''blob'', listeners = [], calls = []\<rparr>"

definition cleanClose :: JSValue where
  "cleanClose =
     \<lparr>Get_type = Some ''close'', Get_reason = Some [], Get_code = Some 1000,
      Type_String = ''object''\<rparr>"

section \<open>Native backend: the loop of Read, one iteration at a time\<close>

lemma read_loop_nil:
  "reader c = None \<Longrightarrow> read_loop d b c = Some (Panic, c)"
  by (subst read_loop.simps) simp

lemma read_loop_passes_on:
  "reader c = Some r \<Longrightarrow> ReaderRead d r b (ws_Conn c) = ((bs, err), w) \<Longrightarrow>
   err \<noteq> Some EOF \<Longrightarrow>
   read_loop d b c = Some (Return (bs, err), c\<lparr>ws_Conn := w\<rparr>)"
  by (subst read_loop.simps) simp

lemma read_loop_last_bytes:
  "reader c = Some r \<Longrightarrow> ReaderRead d r b (ws_Conn c) = ((bs, Some EOF), w) \<Longrightarrow>
   bs \<noteq> [] \<Longrightarrow>
   read_loop d b c = Some (Return (bs, None), c\<lparr>ws_Conn := w, reader := None\<rparr>)"
  by (subst read_loop.simps) simp

lemma read_loop_fetch_fails:
  "reader c = Some r \<Longrightarrow> ReaderRead d r b (ws_Conn c) = (([], Some EOF), w) \<Longrightarrow>
   prepNextReader d (c\<lparr>ws_Conn := w, reader := None\<rparr>) = (Some e, c') \<Longrightarrow>
   read_loop d b c = Some (Return ([], Some e), c')"
  by (subst read_loop.simps) simp

lemma read_loop_again:
  "reader c = Some r \<Longrightarrow> ReaderRead d r b (ws_Conn c) = (([], Some EOF), w) \<Longrightarrow>
   prepNextReader d (c\<lparr>ws_Conn := w, reader := None\<rparr>) = (None, c') \<Longrightarrow>
   read_loop d b c = read_loop d b c'"
  by (subst read_loop.simps) simp

lemma prepNextReader_sets_reader:
  "prepNextReader d c = (None, c') \<Longrightarrow> reader c' \<noteq> None"
  by (auto simp: prepNextReader_def split: prod.splits sum.splits error.splits if_splits)

text \<open>
  The loop is only entered with a frame cursor, and each further turn follows a fetch
  that has set one: a call of \<^verbatim>\<open>Read\<close> that returns never ends in the panic.
\<close>

lemma read_loop_no_panic:
  "read_loop d b c = Some y \<Longrightarrow> reader c \<noteq> None \<longrightarrow> fst y \<noteq> Panic"
proof (induction rule: read_loop.raw_induct [rotated 1, consumes 1])
  case (1 rl d b c y)
  note IH = "1.IH" and body = "1.hyps"
  show ?case
  proof
    assume "reader c \<noteq> None"
    then obtain r where r: "reader c = Some r" by auto
    obtain bs err w where rd: "ReaderRead d r b (ws_Conn c) = ((bs, err), w)"
      by (metis prod.exhaust)
    obtain e c2 where prep: "prepNextReader d (c\<lparr>ws_Conn := w, reader := None\<rparr>) = (e, c2)"
      by (metis prod.exhaust)
    show "fst y \<noteq> Panic"
    proof (cases "err = Some EOF \<and> bs = [] \<and> e = None")
      case True
      with body r rd prep have "rl d b c2 = Some y" by simp
      moreover from True prep have "reader c2 \<noteq> None"
        by (auto dest: prepNextReader_sets_reader)
      ultimately show ?thesis using IH by blast
    next
      case False
      with body r rd prep show ?thesis
        by (cases e) (auto split: if_splits)
    qed
  qed
qed

lemma Read_no_panic:
  "Read d b c = Some (res, c') \<Longrightarrow> res \<noteq> Panic"
proof -
  assume run: "Read d b c = Some (res, c')"
  show ?thesis
  proof (cases "reader c = None")
    case False
    with run read_loop_no_panic [of d b c "(res, c')"] show ?thesis
      by (simp add: Read_def)
  next
    case True
    obtain e c1 where prep: "prepNextReader d c = (e, c1)" by (metis prod.exhaust)
    show ?thesis
    proof (cases e)
      case (Some a)
      with run True prep show ?thesis by (auto simp: Read_def)
    next
      case None
      with prep have "reader c1 \<noteq> None" by (auto dest: prepNextReader_sets_reader)
      with run True prep None read_loop_no_panic [of d b c1 "(res, c')"] show ?thesis
        by (simp add: Read_def)
    qed
  qed
qed

lemma read_loop_step:
  "reader c \<noteq> None \<Longrightarrow>
   read_loop d b c =
     (case ReaderRead d (the (reader c)) b (ws_Conn c) of
        ((bs, err), w) \<Rightarrow>
          if err = Some EOF then
            if length bs > 0 then Some (Return (bs, None), c\<lparr>ws_Conn := w, reader := None\<rparr>)
            else
              (case prepNextReader d (c\<lparr>ws_Conn := w, reader := None\<rparr>) of
                 (Some err', c') \<Rightarrow> Some (Return ([], Some err'), c')
               | (None, c') \<Rightarrow> read_loop d b c')
          else Some (Return (bs, err), c\<lparr>ws_Conn := w\<rparr>))"
  by (subst read_loop.simps) auto

lemmas wire_defs =
  wire_deps_def wire_NextReader_def wire_ReaderRead_def wire_WriteMessage_def
  wire_WriteControl_def wire_Close_def wire_SetReadDeadline_def wire_SetWriteDeadline_def
  wire_FormatCloseMessage_def wire_Combine_def wire0_def

section \<open>Native backend: Write\<close>

text \<open>
  Claim C5. For every buffer \<open>b\<close>, \<^verbatim>\<open>Write\<close> makes one call of \<^verbatim>\<open>WriteMessage\<close>, with the
  connection's message type and the whole of \<open>b\<close>: the connection it leaves is the one
  that call leaves, and nothing else of \<^verbatim>\<open>Conn\<close> changes. If the call succeeds \<^verbatim>\<open>Write\<close>
  returns \<open>(len b, nil)\<close>; if it fails \<^verbatim>\<open>Write\<close> returns \<open>(0, err)\<close> with that error. No
  other count is ever reported, so there is no short write.
\<close>

theorem Write_one_frame_or_error:
  "Write d b c = ((n, err), c') \<Longrightarrow>
     c' = c\<lparr>ws_Conn := snd (WriteMessage d (DefaultMessageType c) b (ws_Conn c))\<rparr> \<and>
     err = fst (WriteMessage d (DefaultMessageType c) b (ws_Conn c)) \<and>
     (err = None \<and> n = length b \<or> err \<noteq> None \<and> n = 0)"
  by (auto simp: Write_def split: prod.splits option.splits)

text \<open>
  On the scripted transport: a write of three bytes on a fresh connection puts exactly
  the frame \<open>(BinaryMessage, [1, 2, 3])\<close> on the wire and reports 3.
\<close>

theorem Write_one_frame_or_error_witness:
  "Write wire_deps [1, 2, 3] (NewConn wire0 :: (wire, unit) Conn) =
     ((3, None), (NewConn wire0)\<lparr>ws_Conn := wire0\<lparr>sent := [(2, [1, 2, 3])]\<rparr>\<rparr>) \<and>
   snd (WriteMessage wire_deps 2 [1, 2, 3] wire0) = wire0\<lparr>sent := [(2, [1, 2, 3])]\<rparr> \<and>
   fst (WriteMessage wire_deps 2 [1, 2, 3] wire0) = None"
proof -
  let ?c = "NewConn wire0 :: (wire, unit) Conn"
  have run: "Write wire_deps [1, 2, 3] ?c =
      ((3, None), ?c\<lparr>ws_Conn := wire0\<lparr>sent := [(2, [1, 2, 3])]\<rparr>\<rparr>)"
    by (simp add: Write_def NewConn_def wire_deps_def wire_WriteMessage_def wire0_def
        BinaryMessage_def)
  have c: "DefaultMessageType ?c = 2" "ws_Conn ?c = wire0"
    by (simp_all add: NewConn_def BinaryMessage_def)
  from Write_one_frame_or_error [OF run]
  have "?c\<lparr>ws_Conn := wire0\<lparr>sent := [(2, [1, 2, 3])]\<rparr>\<rparr> =
          ?c\<lparr>ws_Conn := snd (WriteMessage wire_deps 2 [1, 2, 3] wire0)\<rparr>"
    and "None = fst (WriteMessage wire_deps 2 [1, 2, 3] wire0)"
    unfolding c by simp_all
  then have "snd (WriteMessage wire_deps 2 [1, 2, 3] wire0) = wire0\<lparr>sent := [(2, [1, 2, 3])]\<rparr>"
    and "fst (WriteMessage wire_deps 2 [1, 2, 3] wire0) = None"
    by (simp_all add: NewConn_def)
  with run show ?thesis by simp
qed

section \<open>Native backend: the deadlines\<close>

text \<open>
  Claim C8. \<^verbatim>\<open>SetDeadline(t)\<close> first sets the read deadline to \<open>t\<close> and then, on the
  connection that call leaves, the write deadline to the same \<open>t\<close>. If the first call
  fails, its error is returned and the underlying connection is the one that failed call
  leaves: the write deadline is not touched. If the first call succeeds, the result is the
  result of the second call, on the connection the second call leaves: nothing is undone.
  On the scripted transport, whose two deadlines can be read off: a failing read deadline
  leaves the connection as it was; a failing write deadline leaves the read deadline at \<open>t\<close>
  and the write deadline as it was; with neither failing both are \<open>t\<close>.
\<close>

theorem SetDeadline_read_then_write:
  "(ConnSetReadDeadline d t (ws_Conn c) = (e1, w1) \<longrightarrow>
    ConnSetWriteDeadline d t w1 = (e2, w2) \<longrightarrow>
      SetDeadline d t c =
        (if e1 \<noteq> None then (e1, c\<lparr>ws_Conn := w1\<rparr>) else (e2, c\<lparr>ws_Conn := w2\<rparr>))) \<and>
   (readDeadlineFault (ws_Conn k) = Some e \<longrightarrow>
      fst (SetDeadline wire_deps t k) = Some e \<and> snd (SetDeadline wire_deps t k) = k) \<and>
   (readDeadlineFault (ws_Conn k) = None \<longrightarrow> writeDeadlineFault (ws_Conn k) = Some e \<longrightarrow>
      fst (SetDeadline wire_deps t k) = Some e \<and>
      snd (SetDeadline wire_deps t k) = k\<lparr>ws_Conn := (ws_Conn k)\<lparr>readDeadline := Some t\<rparr>\<rparr>) \<and>
   (readDeadlineFault (ws_Conn k) = None \<longrightarrow> writeDeadlineFault (ws_Conn k) = None \<longrightarrow>
      fst (SetDeadline wire_deps t k) = None \<and>
      snd (SetDeadline wire_deps t k) =
        k\<lparr>ws_Conn := (ws_Conn k)\<lparr>readDeadline := Some t, writeDeadline := Some t\<rparr>\<rparr>)"
  by (auto simp: SetDeadline_def SetReadDeadline_def SetWriteDeadline_def wire_deps_def
      wire_SetReadDeadline_def wire_SetWriteDeadline_def split: option.splits prod.splits)

theorem SetDeadline_read_then_write_witness:
  "SetDeadline wire_deps 5
     (NewConn (wire0\<lparr>writeDeadline := Some 1, readDeadlineFault := Some (OtherError ''closed'')\<rparr>)
        :: (wire, unit) Conn) =
     (Some (OtherError ''closed''),
      NewConn (wire0\<lparr>writeDeadline := Some 1, readDeadlineFault := Some (OtherError ''closed'')\<rparr>)) \<and>
   SetDeadline wire_deps 5
     (NewConn (wire0\<lparr>writeDeadline := Some 1, writeDeadlineFault := Some (OtherError ''closed'')\<rparr>)
        :: (wire, unit) Conn) =
     (Some (OtherError ''closed''),
      NewConn (wire0\<lparr>readDeadline := Some 5, writeDeadline := Some 1,
                     writeDeadlineFault := Some (OtherError ''closed'')\<rparr>)) \<and>
   SetDeadline wire_deps 5 (NewConn wire0 :: (wire, unit) Conn) =
     (None, NewConn (wire0\<lparr>readDeadline := Some 5, writeDeadline := Some 5\<rparr>))"
proof -
  let ?e = "OtherError ''closed''"
  let ?k1 = "NewConn (wire0\<lparr>writeDeadline := Some 1, readDeadlineFault := Some ?e\<rparr>)
               :: (wire, unit) Conn"
  let ?k2 = "NewConn (wire0\<lparr>writeDeadline := Some 1, writeDeadlineFault := Some ?e\<rparr>)
               :: (wire, unit) Conn"
  let ?k3 = "NewConn wire0 :: (wire, unit) Conn"
  have "fst (SetDeadline wire_deps 5 ?k1) = Some ?e \<and> snd (SetDeadline wire_deps 5 ?k1) = ?k1"
    using SetDeadline_read_then_write [where k = ?k1 and e = ?e and t = 5, THEN conjunct2]
    by (simp add: NewConn_def wire0_def)
  moreover
  have "fst (SetDeadline wire_deps 5 ?k2) = Some ?e \<and>
        snd (SetDeadline wire_deps 5 ?k2) = ?k2\<lparr>ws_Conn := (ws_Conn ?k2)\<lparr>readDeadline := Some 5\<rparr>\<rparr>"
    using SetDeadline_read_then_write [where k = ?k2 and e = ?e and t = 5, THEN conjunct2]
    by (simp add: NewConn_def wire0_def)
  moreover
  have "ConnSetReadDeadline wire_deps 5 (ws_Conn ?k3) = (None, wire0\<lparr>readDeadline := Some 5\<rparr>)"
    and "ConnSetWriteDeadline wire_deps 5 (wire0\<lparr>readDeadline := Some 5\<rparr>) =
           (None, wire0\<lparr>readDeadline := Some 5, writeDeadline := Some 5\<rparr>)"
    by (simp_all add: wire_defs NewConn_def)
  with SetDeadline_read_then_write [where d = wire_deps and c = ?k3 and t = 5 and ?e1.0 = None
      and ?w1.0 = "wire0\<lparr>readDeadline := Some 5\<rparr>" and ?e2.0 = None
      and ?w2.0 = "wire0\<lparr>readDeadline := Some 5, writeDeadline := Some 5\<rparr>", THEN conjunct1]
  have "fst (SetDeadline wire_deps 5 ?k3) = None \<and>
        snd (SetDeadline wire_deps 5 ?k3) =
          ?k3\<lparr>ws_Conn := (ws_Conn ?k3)\<lparr>readDeadline := Some 5, writeDeadline := Some 5\<rparr>\<rparr>"
    by (simp add: NewConn_def wire0_def)
  ultimately show ?thesis
    by (simp add: prod_eq_iff NewConn_def wire0_def)
qed

section \<open>Native backend: Read\<close>

text \<open>
  Claim C3. Whenever the frame reader hands \<^verbatim>\<open>Read\<close> a non-empty piece \<open>bs\<close> together with
  \<^verbatim>\<open>io.EOF\<close>, in whichever turn of the loop, the call returns \<open>(len bs, nil)\<close> there and
  then: the underlying connection is left as that one read of the reader leaves it (no
  further frame is fetched) and the frame cursor is cleared. This holds for the first turn
  of a call that starts with a cursor, and for a call that starts without one and has
  fetched a frame. The next \<^verbatim>\<open>Read\<close> on the connection it leaves starts by fetching.
\<close>

theorem Read_returns_last_bytes_of_frame:
  "(reader c = Some r \<longrightarrow> ReaderRead d r b (ws_Conn c) = ((bs, Some EOF), w) \<longrightarrow> bs \<noteq> [] \<longrightarrow>
      read_loop d b c = Some (Return (bs, None), c\<lparr>ws_Conn := w, reader := None\<rparr>) \<and>
      Read d b c = Some (Return (bs, None), c\<lparr>ws_Conn := w, reader := None\<rparr>) \<and>
      Read d b' (c\<lparr>ws_Conn := w, reader := None\<rparr>) =
        (case prepNextReader d (c\<lparr>ws_Conn := w, reader := None\<rparr>) of
           (Some err, c') \<Rightarrow> Some (Return ([], Some err), c')
         | (None, c') \<Rightarrow> read_loop d b' c')) \<and>
   (reader c = None \<longrightarrow> prepNextReader d c = (None, c1) \<longrightarrow> reader c1 = Some r \<longrightarrow>
      ReaderRead d r b (ws_Conn c1) = ((bs, Some EOF), w) \<longrightarrow> bs \<noteq> [] \<longrightarrow>
      Read d b c = Some (Return (bs, None), c1\<lparr>ws_Conn := w, reader := None\<rparr>))"
  by (simp add: Read_def read_loop_last_bytes)

text \<open>
  On the scripted transport with a reader that reports \<^verbatim>\<open>io.EOF\<close> with the last bytes,
  and a buffer of eight bytes: once with two bytes left of the current frame, once with
  no current frame and a frame of two bytes pending.
\<close>

theorem Read_returns_last_bytes_of_frame_witness:
  "Read wire_deps 8
     \<lparr>ws_Conn = wire0\<lparr>remaining := [1, 2], eager := True\<rparr>, DefaultMessageType = 2,
      reader = Some (), closeOnce = False\<rparr> =
   Some (Return ([1, 2], None),
     \<lparr>ws_Conn = wire0\<lparr>remaining := [], eager := True\<rparr>, DefaultMessageType = 2,
      reader = None, closeOnce = False\<rparr>) \<and>
   Read wire_deps 8
     \<lparr>ws_Conn = wire0\<lparr>pending := [Frame 2 [1, 2]], eager := True\<rparr>, DefaultMessageType = 2,
      reader = None, closeOnce = False\<rparr> =
   Some (Return ([1, 2], None),
     \<lparr>ws_Conn = wire0\<lparr>remaining := [], eager := True\<rparr>, DefaultMessageType = 2,
      reader = None, closeOnce = False\<rparr>)"
proof -
  let ?c = "\<lparr>ws_Conn = wire0\<lparr>remaining := [1, 2], eager := True\<rparr>, DefaultMessageType = 2,
             reader = Some (), closeOnce = False\<rparr>"
  let ?fresh = "\<lparr>ws_Conn = wire0\<lparr>pending := [Frame 2 [1, 2]], eager := True\<rparr>,
              DefaultMessageType = 2, reader = None, closeOnce = False\<rparr>"
  have rd: "ReaderRead wire_deps () 8 (ws_Conn ?c) =
              (([1, 2], Some EOF), wire0\<lparr>remaining := [], eager := True\<rparr>)"
    by (simp add: wire_deps_def wire_ReaderRead_def wire0_def)
  have prep: "prepNextReader wire_deps ?fresh = (None, ?c)"
    by (simp add: prepNextReader_def wire_deps_def wire_NextReader_def wire0_def CloseMessage_def)
  have "Read wire_deps 8 ?c =
      Some (Return ([1, 2], None),
        \<lparr>ws_Conn = wire0\<lparr>remaining := [], eager := True\<rparr>, DefaultMessageType = 2,
         reader = None, closeOnce = False\<rparr>)"
    using Read_returns_last_bytes_of_frame [where c = ?c and d = wire_deps and b = 8 and r = "()"
      and bs = "[1, 2]" and w = "wire0\<lparr>remaining := [], eager := True\<rparr>"] rd
    by simp
  moreover
  have "Read wire_deps 8 ?fresh =
      Some (Return ([1, 2], None),
        \<lparr>ws_Conn = wire0\<lparr>remaining := [], eager := True\<rparr>, DefaultMessageType = 2,
         reader = None, closeOnce = False\<rparr>)"
    using Read_returns_last_bytes_of_frame [where c = ?fresh and ?c1.0 = ?c and d = wire_deps
      and b = 8 and r = "()" and bs = "[1, 2]" and w = "wire0\<lparr>remaining := [], eager := True\<rparr>"]
      rd prep
    by simp
  ultimately show ?thesis by simp
qed

text \<open>
  Claim C4. When \<^verbatim>\<open>prepNextReader\<close> fetches the next frame: a close error with code 1000
  or 1005 becomes \<^verbatim>\<open>io.EOF\<close>; a frame of type \<^verbatim>\<open>CloseMessage\<close> that was fetched without
  error becomes \<^verbatim>\<open>io.EOF\<close>; every other error is returned as it is. \<^verbatim>\<open>Read\<close> returns what
  \<^verbatim>\<open>prepNextReader\<close> reports, with zero bytes, both where it fetches at the start of a call
  and where it fetches after an exhausted frame.
\<close>

theorem prepNextReader_translates_close:
  "(NextReader d (ws_Conn c) = (Inl (CloseError code msg), w) \<longrightarrow>
    code = 1000 \<or> code = 1005 \<longrightarrow>
      prepNextReader d c = (Some EOF, c\<lparr>ws_Conn := w\<rparr>)) \<and>
   (NextReader d (ws_Conn c) = (Inr (CloseMessage, r), w) \<longrightarrow>
      prepNextReader d c = (Some EOF, c\<lparr>ws_Conn := w\<rparr>)) \<and>
   (NextReader d (ws_Conn c) = (Inl e, w) \<longrightarrow>
    (\<forall>msg. e \<noteq> CloseError 1000 msg \<and> e \<noteq> CloseError 1005 msg) \<longrightarrow>
      prepNextReader d c = (Some e, c\<lparr>ws_Conn := w\<rparr>)) \<and>
   (reader c = None \<longrightarrow> prepNextReader d c = (Some e', c') \<longrightarrow>
      Read d b c = Some (Return ([], Some e'), c')) \<and>
   (reader c = Some r' \<longrightarrow> ReaderRead d r' b (ws_Conn c) = (([], Some EOF), w') \<longrightarrow>
    prepNextReader d (c\<lparr>ws_Conn := w', reader := None\<rparr>) = (Some e', c') \<longrightarrow>
      Read d b c = Some (Return ([], Some e'), c'))"
  by (auto simp: prepNextReader_def Read_def read_loop_fetch_fails split: error.splits)

text \<open>
  On the scripted transport: a close error with code 1005 and a close frame read as
  \<^verbatim>\<open>io.EOF\<close>; a close error with code 1006 is returned as it is, by \<^verbatim>\<open>prepNextReader\<close>
  and by a \<^verbatim>\<open>Read\<close> that starts by fetching; a \<^verbatim>\<open>Read\<close> that finds its frame used up and
  then fetches the close error 1000 returns \<^verbatim>\<open>io.EOF\<close>.
\<close>

theorem prepNextReader_translates_close_witness:
  "prepNextReader wire_deps (NewConn (wire0\<lparr>pending := [Fail (CloseError 1005 [])]\<rparr>)) =
     (Some EOF, NewConn (wire0\<lparr>pending := [Fail (CloseError 1005 [])]\<rparr>) :: (wire, unit) Conn) \<and>
   prepNextReader wire_deps (NewConn (wire0\<lparr>pending := [Frame 8 []]\<rparr>)) =
     (Some EOF, NewConn wire0 :: (wire, unit) Conn) \<and>
   prepNextReader wire_deps (NewConn (wire0\<lparr>pending := [Fail (CloseError 1006 ''unexpected EOF'')]\<rparr>)) =
     (Some (CloseError 1006 ''unexpected EOF''),
      NewConn (wire0\<lparr>pending := [Fail (CloseError 1006 ''unexpected EOF'')]\<rparr>) :: (wire, unit) Conn) \<and>
   Read wire_deps 8 (NewConn (wire0\<lparr>pending := [Fail (CloseError 1006 ''unexpected EOF'')]\<rparr>)) =
     Some (Return ([], Some (CloseError 1006 ''unexpected EOF'')),
      NewConn (wire0\<lparr>pending := [Fail (CloseError 1006 ''unexpected EOF'')]\<rparr>) :: (wire, unit) Conn) \<and>
   Read wire_deps 8
     \<lparr>ws_Conn = wire0\<lparr>pending := [Fail (CloseError 1000 [])]\<rparr>, DefaultMessageType = 2,
      reader = Some (), closeOnce = False\<rparr> =
     Some (Return ([], Some EOF),
       \<lparr>ws_Conn = wire0\<lparr>pending := [Fail (CloseError 1000 [])]\<rparr>, DefaultMessageType = 2,
        reader = None, closeOnce = False\<rparr>)"
proof -
  let ?w1 = "wire0\<lparr>pending := [Fail (CloseError 1005 [])]\<rparr>"
  let ?w2 = "wire0\<lparr>pending := [Fail (CloseError 1006 ''unexpected EOF'')]\<rparr>"
  let ?w3 = "wire0\<lparr>pending := [Frame 8 []]\<rparr>"
  let ?w4 = "wire0\<lparr>pending := [Fail (CloseError 1000 [])]\<rparr>"
  let ?c4 = "\<lparr>ws_Conn = ?w4, DefaultMessageType = 2, reader = Some (), closeOnce = False\<rparr>"
  have n1: "NextReader wire_deps (ws_Conn (NewConn ?w1 :: (wire, unit) Conn)) =
              (Inl (CloseError 1005 []), ?w1)"
    by (simp add: wire_deps_def wire_NextReader_def NewConn_def)
  have n2: "NextReader wire_deps (ws_Conn (NewConn ?w2 :: (wire, unit) Conn)) =
              (Inl (CloseError 1006 ''unexpected EOF''), ?w2)"
    by (simp add: wire_deps_def wire_NextReader_def NewConn_def)
  have n3: "NextReader wire_deps (ws_Conn (NewConn ?w3 :: (wire, unit) Conn)) =
              (Inr (CloseMessage, ()), wire0)"
    by (simp add: wire_deps_def wire_NextReader_def NewConn_def wire0_def CloseMessage_def)
  have one: "prepNextReader wire_deps (NewConn ?w1) = (Some EOF, NewConn ?w1 :: (wire, unit) Conn)"
    using prepNextReader_translates_close [where d = wire_deps and c = "NewConn ?w1"
      and code = 1005 and msg = "[]" and w = ?w1] n1
    by (simp add: NewConn_def)
  have two: "prepNextReader wire_deps (NewConn ?w3) = (Some EOF, NewConn wire0 :: (wire, unit) Conn)"
    using prepNextReader_translates_close [where d = wire_deps and c = "NewConn ?w3"
      and r = "()" and w = wire0] n3
    by (simp add: NewConn_def)
  have three: "prepNextReader wire_deps (NewConn ?w2) =
          (Some (CloseError 1006 ''unexpected EOF''), NewConn ?w2 :: (wire, unit) Conn)"
    using prepNextReader_translates_close [where d = wire_deps and c = "NewConn ?w2"
      and e = "CloseError 1006 ''unexpected EOF''" and w = ?w2] n2
    by (simp add: NewConn_def)
  have four: "Read wire_deps 8 (NewConn ?w2) =
      Some (Return ([], Some (CloseError 1006 ''unexpected EOF'')), NewConn ?w2 :: (wire, unit) Conn)"
    using prepNextReader_translates_close [where d = wire_deps and c = "NewConn ?w2"
      and e' = "CloseError 1006 ''unexpected EOF''" and c' = "NewConn ?w2" and b = 8] three
    by (simp add: NewConn_def)
  have rd: "ReaderRead wire_deps () 8 (ws_Conn ?c4) = (([], Some EOF), ?w4)"
    by (simp add: wire_deps_def wire_ReaderRead_def wire0_def)
  have prep: "prepNextReader wire_deps (?c4\<lparr>ws_Conn := ?w4, reader := None\<rparr>) =
      (Some EOF, ?c4\<lparr>reader := None\<rparr>)"
    by (simp add: prepNextReader_def wire_deps_def wire_NextReader_def)
  have five: "Read wire_deps 8 ?c4 = Some (Return ([], Some EOF), ?c4\<lparr>reader := None\<rparr>)"
    using prepNextReader_translates_close [where d = wire_deps and c = ?c4 and r' = "()"
      and b = 8 and w' = ?w4 and e' = EOF and c' = "?c4\<lparr>reader := None\<rparr>"] rd prep
    by simp
  from one two three four five show ?thesis by simp
qed

text \<open>
  Claim C2. The peer sends three data frames of 10, 0 and 5 bytes and then closes
  gracefully; the caller reads four times into a buffer of 8 bytes. The four calls return
  the first 8 bytes of the first frame, its other 2 bytes, the 5 bytes of the third frame
  (the empty frame is passed over inside that call), and zero bytes with \<^verbatim>\<open>io.EOF\<close>; the
  bytes read are those of the frames, in order, 15 in all. This holds for any payloads of
  these lengths, for both ways the reader may report the end of a frame, and for each
  form of the graceful close.
\<close>

theorem Read_frames_10_0_5:
  assumes "length p = 10" and "length q = 5" and "graceful g"
    and "ta \<noteq> CloseMessage" and "tb \<noteq> CloseMessage" and "tc \<noteq> CloseMessage"
  shows "reads wire_deps 8 4
           (NewConn (wire0\<lparr>pending := [Frame ta p, Frame tb [], Frame tc q, g], eager := e\<rparr>)) =
         [Return (take 8 p, None), Return (drop 8 p, None), Return (q, None),
          Return ([], Some EOF)] \<and>
         length (take 8 p) = 8 \<and> length (drop 8 p) = 2 \<and> length q = 5 \<and>
         take 8 p @ drop 8 p @ q = p @ q \<and> length (p @ q) = 15"
proof -
  have ne: "p \<noteq> []" "q \<noteq> []"
    using assms by auto
  have "reads wire_deps 8 4
           (NewConn (wire0\<lparr>pending := [Frame ta p, Frame tb [], Frame tc q, g], eager := e\<rparr>)) =
         [Return (take 8 p, None), Return (drop 8 p, None), Return (q, None),
          Return ([], Some EOF)]"
    using assms ne
    by (cases g rule: graceful.cases; cases e)
      (simp_all add: numeral_eq_Suc Read_def read_loop_step prepNextReader_def NewConn_def
        wire_deps_def wire_NextReader_def wire_ReaderRead_def wire0_def)
  with assms show ?thesis by simp
qed

theorem Read_frames_10_0_5_witness:
  "reads wire_deps 8 4
     (NewConn (wire0\<lparr>pending :=
        [Frame 2 [1, 2, 3, 4, 5, 6, 7, 8, 9, 10], Frame 2 [], Frame 2 [11, 12, 13, 14, 15],
         Fail (CloseError 1000 [])]\<rparr>)) =
   [Return ([1, 2, 3, 4, 5, 6, 7, 8], None), Return ([9, 10], None),
    Return ([11, 12, 13, 14, 15], None), Return ([], Some EOF)]"
proof -
  have "wire0\<lparr>pending :=
        [Frame 2 [1, 2, 3, 4, 5, 6, 7, 8, 9, 10], Frame 2 [], Frame 2 [11, 12, 13, 14, 15],
         Fail (CloseError 1000 [])], eager := False\<rparr> =
      wire0\<lparr>pending :=
        [Frame 2 [1, 2, 3, 4, 5, 6, 7, 8, 9, 10], Frame 2 [], Frame 2 [11, 12, 13, 14, 15],
         Fail (CloseError 1000 [])]\<rparr>"
    by (simp add: wire0_def)
  with Read_frames_10_0_5 [where p = "[1, 2, 3, 4, 5, 6, 7, 8, 9, 10]"
      and q = "[11, 12, 13, 14, 15]" and g = "Fail (CloseError 1000 [])"
      and ta = 2 and tb = 2 and tc = 2 and e = False]
  show ?thesis by (simp add: CloseMessage_def)
qed

section \<open>Both backends: zero bytes with a nil error\<close>

lemma read_loop_zero_nil:
  "read_loop d b c = Some y \<Longrightarrow>
   (\<forall>c'. y = (Return ([], None), c') \<longrightarrow> (\<exists>r w. ReaderRead d r b w = (([], None), ws_Conn c')))"
proof (induction rule: read_loop.raw_induct [rotated 1, consumes 1])
  case (1 rl d b c y)
  note IH = "1.IH" and body = "1.hyps"
  show ?case
  proof (cases "reader c")
    case None
    with body show ?thesis by auto
  next
    case (Some r)
    obtain bs err w where rd: "ReaderRead d r b (ws_Conn c) = ((bs, err), w)"
      by (metis prod.exhaust)
    show ?thesis
    proof (cases "err = Some EOF")
      case False
      with body Some rd have "y = (Return (bs, err), c\<lparr>ws_Conn := w\<rparr>)" by simp
      with rd show ?thesis by auto
    next
      case eof: True
      show ?thesis
      proof (cases "bs = []")
        case False
        with body Some rd eof show ?thesis by auto
      next
        case True
        obtain e c2 where prep: "prepNextReader d (c\<lparr>ws_Conn := w, reader := None\<rparr>) = (e, c2)"
          by (metis prod.exhaust)
        show ?thesis
        proof (cases e)
          case (Some a)
          with body \<open>reader c = Some r\<close> rd eof True prep show ?thesis by auto
        next
          case None
          with body \<open>reader c = Some r\<close> rd eof True prep have "rl d b c2 = Some y" by simp
          then show ?thesis using IH by blast
        qed
      qed
    qed
  qed
qed

lemma Read_zero_nil:
  "Read d b c = Some (Return ([], None), c') \<Longrightarrow>
   \<exists>r w. ReaderRead d r b w = (([], None), ws_Conn c')"
  using read_loop_zero_nil [of d b]
  by (auto simp: Read_def split: if_splits prod.splits option.splits)

lemma wire_ReaderRead_progress:
  "0 < n \<Longrightarrow> fst (ReaderRead wire_deps r n w) \<noteq> ([], None)"
  by (simp add: wire_deps_def wire_ReaderRead_def)

lemma readAfterErr_progress:
  "readAfterErr b c = ((bs, err), c') \<Longrightarrow> bs = [] \<Longrightarrow> err \<noteq> None"
proof -
  assume run: "readAfterErr b c = ((bs, err), c')" and empty: "bs = []"
  obtain bs0 err0 rest where rd: "Buffer_Read b (currData c) = ((bs0, err0), rest)"
    by (metis prod.exhaust)
  show "err \<noteq> None"
  proof (cases "bs0 = []")
    case True
    with run rd have "err = (if firstErr c \<noteq> None then firstErr c else Some EOF)"
      by (auto simp: readAfterErr_def)
    then show ?thesis by (cases "firstErr c") auto
  next
    case False
    with run rd empty show ?thesis by (auto simp: readAfterErr_def)
  qed
qed

lemma Read_loop_js_progress:
  "Read_loop_js b sched c = Some ((bs, err), c') \<Longrightarrow> bs = [] \<Longrightarrow> err \<noteq> None"
proof (induction b sched c rule: Read_loop_js.induct)
  case (1 b sched c)
  obtain bs0 err0 rest where rd: "Buffer_Read b (currData c) = ((bs0, err0), rest)"
    by (metis prod.exhaust)
  show ?case
  proof (cases "bs0 = []")
    case False
    with "1.prems" rd show ?thesis
      by (subst (asm) Read_loop_js.simps) auto
  next
    case True
    with "1.prems" rd "1.IH" show ?thesis
      apply (subst (asm) Read_loop_js.simps)
      apply (auto split: list.splits wake.splits if_splits dest: readAfterErr_progress)
      done
  qed
qed

lemma Read_js_progress:
  "Read_js b sched c = Some ((bs, err), c') \<Longrightarrow> bs = [] \<Longrightarrow> err \<noteq> None"
  using readAfterErr_progress [of b c bs err c'] Read_loop_js_progress [of b sched c bs err c']
  by (auto simp: Read_js_def simp del: Read_loop_js.simps split: if_splits)

lemma Read_wire_empty_buffer:
  "Read wire_deps 0 (NewConn (wire0\<lparr>pending := [Frame 2 [1]]\<rparr>)) =
     Some (Return ([], None),
       \<lparr>ws_Conn = wire0\<lparr>remaining := [1]\<rparr>, DefaultMessageType = 2, reader = Some (),
        closeOnce = False\<rparr>)"
  by (simp add: Read_def read_loop_step prepNextReader_def NewConn_def wire_defs
      CloseMessage_def BinaryMessage_def)

text \<open>
  Claim C7, as amended. A call of the js/wasm \<^verbatim>\<open>Read\<close> that returns, under any schedule and
  for any buffer (also one of length zero), returns at least one byte or a non-nil error.
  The native \<^verbatim>\<open>Read\<close> returns zero bytes with a nil error only by passing on a read of the
  frame reader that itself returned zero bytes and a nil error: then the underlying
  connection is the one that read left. So with a frame reader that never does this,
  \<^verbatim>\<open>Read\<close> never does; on the scripted transport that is every call with a buffer that is
  not empty.
\<close>

theorem Read_zero_bytes_nil_error:
  "(Read_js b sched k = Some ((bs, err), k') \<longrightarrow> bs = [] \<longrightarrow> err \<noteq> None) \<and>
   (Read d n c = Some (Return ([], None), c') \<longrightarrow>
      (\<exists>r w. ReaderRead d r n w = (([], None), ws_Conn c'))) \<and>
   ((\<forall>r w. fst (ReaderRead d r n w) \<noteq> ([], None)) \<longrightarrow>
    Read d n c = Some (Return (bs1, err1), c1) \<longrightarrow> bs1 = [] \<longrightarrow> err1 \<noteq> None) \<and>
   (0 < n \<longrightarrow> Read wire_deps n cw = Some (Return (bs2, err2), cw') \<longrightarrow> bs2 = [] \<longrightarrow>
      err2 \<noteq> None)"
proof (intro conjI impI)
  assume "Read_js b sched k = Some ((bs, err), k')" and "bs = []"
  then show "err \<noteq> None" by (rule Read_js_progress)
next
  assume "Read d n c = Some (Return ([], None), c')"
  then show "\<exists>r w. ReaderRead d r n w = (([], None), ws_Conn c')" by (rule Read_zero_nil)
next
  assume good: "\<forall>r w. fst (ReaderRead d r n w) \<noteq> ([], None)"
    and run: "Read d n c = Some (Return (bs1, err1), c1)" and "bs1 = []"
  show "err1 \<noteq> None"
  proof
    assume "err1 = None"
    with run \<open>bs1 = []\<close> have "\<exists>r w. ReaderRead d r n w = (([], None), ws_Conn c1)"
      by (intro Read_zero_nil) simp
    with good show False by (metis fst_conv)
  qed
next
  assume "0 < n" and run: "Read wire_deps n cw = Some (Return (bs2, err2), cw')" and "bs2 = []"
  show "err2 \<noteq> None"
  proof
    assume "err2 = None"
    with run \<open>bs2 = []\<close> have "\<exists>r w. ReaderRead wire_deps r n w = (([], None), ws_Conn cw')"
      by (intro Read_zero_nil) simp
    with wire_ReaderRead_progress [OF \<open>0 < n\<close>] show False by (metis fst_conv)
  qed
qed

text \<open>
  The amended statement at the input of the counterexample: the zero bytes and nil error
  are those of the frame reader, asked to fill a buffer of length zero.
\<close>

theorem Read_zero_bytes_nil_error_witness:
  "Read wire_deps 0 (NewConn (wire0\<lparr>pending := [Frame 2 [1]]\<rparr>)) =
     Some (Return ([], None),
       \<lparr>ws_Conn = wire0\<lparr>remaining := [1]\<rparr>, DefaultMessageType = 2, reader = Some (),
        closeOnce = False\<rparr>) \<and>
   (\<exists>r w. ReaderRead wire_deps r 0 w = (([], None), wire0\<lparr>remaining := [1]\<rparr>))"
proof -
  note run = Read_wire_empty_buffer
  from Read_zero_bytes_nil_error [THEN conjunct2, THEN conjunct1, rule_format, OF run]
  have "\<exists>r w. ReaderRead wire_deps r 0 w = (([], None), wire0\<lparr>remaining := [1]\<rparr>)"
    by simp
  with run show ?thesis by simp
qed

text \<open>
  Counterexample to C7 as stated. On the native backend, with one frame of one byte
  pending, a \<^verbatim>\<open>Read\<close> into a buffer of length zero fetches the frame, the frame reader
  copies nothing and reports no error, and \<^verbatim>\<open>Read\<close> returns \<open>(0, nil)\<close>.
\<close>

theorem Read_zero_bytes_nil_error_counterexample:
  "Read wire_deps 0 (NewConn (wire0\<lparr>pending := [Frame 2 [1]]\<rparr>)) =
     Some (Return ([], None),
       \<lparr>ws_Conn = wire0\<lparr>remaining := [1]\<rparr>, DefaultMessageType = 2, reader = Some (),
        closeOnce = False\<rparr>)"
  by (rule Read_wire_empty_buffer)

section \<open>Native backend and js/wasm backend: Close\<close>

lemmas js_defs =
  NewConn_js_def setUpHandlers_def Call_addEventListener_def Call_removeEventListener_def
  Call_close_def dispatch_def on_close_def on_message_def on_error_def signalClose_def
  releaseHandlers_def Close_js_def errorEventToError_def Sprintf_d_def Read_js_def
  checkOpen_def readAfterErr_def Buffer_Read_def webSocketStateOpen_def
  webSocketStateClosed_def webSocketStateClosing_def sock0_def cleanClose_def

lemma releaseHandlers_keeps:
  "closeSignal (releaseHandlers c) = closeSignal c"
  "closeOnce_js (releaseHandlers c) = closeOnce_js c"
  "firstErr (releaseHandlers c) = firstErr c"
  "currData (releaseHandlers c) = currData c"
  "dataSignal (releaseHandlers c) = dataSignal c"
  by (simp_all add: releaseHandlers_def Let_def)

lemma releaseHandlers_calls:
  "calls (js_Value (releaseHandlers c)) =
     calls (js_Value c)
       @ (if messageHandler c \<noteq> None then [[''removeEventListener'', ''message'']] else [])
       @ (if closeHandler c \<noteq> None then [[''removeEventListener'', ''close'']] else [])
       @ (if errorHandler c \<noteq> None then [[''removeEventListener'', ''error'']] else [])"
  by (simp add: releaseHandlers_def Let_def Call_removeEventListener_def)

lemma signalClose_fires:
  "closeOnce_js (signalClose c)"
  "closeSignal (signalClose c) = (closeSignal c \<or> \<not> closeOnce_js c)"
  "firstErr (signalClose c) = firstErr c"
  "currData (signalClose c) = currData c"
  "js_Value (signalClose c) = js_Value c"
  "messageHandler (signalClose c) = messageHandler c"
  "closeHandler (signalClose c) = closeHandler c"
  "errorHandler (signalClose c) = errorHandler c"
  by (auto simp: signalClose_def)

lemma Close_js_twice_calls:
  "calls (js_Value (snd (Close_js (snd (Close_js (NewConn_js sock0)))))) =
     calls (js_Value (snd (Close_js (NewConn_js sock0)))) @
       [[''close''], [''removeEventListener'', ''message''],
        [''removeEventListener'', ''close''], [''removeEventListener'', ''error'']]"
  by (simp add: js_defs Let_def)

text \<open>
  Claim C6, as amended. Native backend, as the claim has it: the first \<^verbatim>\<open>Close\<close> sends a
  close control frame (type \<^verbatim>\<open>CloseMessage\<close>, the payload for code 1000 and the text
  \<^verbatim>\<open>closed\<close>, deadline \<open>now + GracefulCloseTimeout\<close>), then closes the underlying
  connection, and returns the two errors combined; from then on the once-flag is set, and
  every later \<^verbatim>\<open>Close\<close> returns nil and leaves the connection, the underlying one
  included, exactly as it was. js/wasm backend: every \<^verbatim>\<open>Close\<close> returns nil, and the close
  signal is fired by a call only if the once-flag is not yet set; but every call, not only
  the first, calls \<^verbatim>\<open>close()\<close> on the socket and goes on to remove the listener of each
  handler that has been installed.
\<close>

theorem Close_once:
  "(\<not> closeOnce c \<longrightarrow>
    WriteControl d CloseMessage (FormatCloseMessage d CloseNormalClosure ''closed'')
      (now + GracefulCloseTimeout d) (ws_Conn c) = (err1, w1) \<longrightarrow>
    ConnClose d w1 = (err2, w2) \<longrightarrow>
      Close d now c = (Combine d err1 err2, c\<lparr>ws_Conn := w2, closeOnce := True\<rparr>)) \<and>
   (closeOnce c \<longrightarrow> Close d now c = (None, c)) \<and>
   closeOnce (snd (Close d now c)) \<and>
   Close d now' (snd (Close d now c)) = (None, snd (Close d now c)) \<and>
   fst (Close_js k) = None \<and>
   closeOnce_js (snd (Close_js k)) \<and>
   closeSignal (snd (Close_js k)) = (closeSignal k \<or> \<not> closeOnce_js k) \<and>
   calls (js_Value (snd (Close_js k))) =
     calls (js_Value k) @ [[''close'']]
       @ (if messageHandler k \<noteq> None then [[''removeEventListener'', ''message'']] else [])
       @ (if closeHandler k \<noteq> None then [[''removeEventListener'', ''close'']] else [])
       @ (if errorHandler k \<noteq> None then [[''removeEventListener'', ''error'']] else [])"
proof -
  have once: "closeOnce (snd (Close d now c))"
    by (simp add: Close_def split: prod.splits)
  have again: "Close d now' (snd (Close d now c)) = (None, snd (Close d now c))"
    using once by (simp add: Close_def [of d now'])
  have js: "calls (js_Value (snd (Close_js k))) =
     calls (js_Value k) @ [[''close'']]
       @ (if messageHandler k \<noteq> None then [[''removeEventListener'', ''message'']] else [])
       @ (if closeHandler k \<noteq> None then [[''removeEventListener'', ''close'']] else [])
       @ (if errorHandler k \<noteq> None then [[''removeEventListener'', ''error'']] else [])"
    by (simp add: Close_js_def Let_def releaseHandlers_calls signalClose_fires Call_close_def)
  show ?thesis
    using once again js
    by (simp add: Close_def Close_js_def Let_def releaseHandlers_keeps signalClose_fires)
qed

text \<open>
  On the scripted transport, at time 7: the first \<^verbatim>\<open>Close\<close> puts one close frame on the
  wire, with a deadline 100 ms later, and closes the socket once; a second \<^verbatim>\<open>Close\<close> at
  time 9 returns nil and changes nothing.
\<close>

theorem Close_once_witness:
  "Close wire_deps 7 (NewConn wire0 :: (wire, unit) Conn) =
     (None,
      \<lparr>ws_Conn = wire0\<lparr>control := [(8, [3, 232, 99, 108, 111, 115, 101, 100], 100000007)],
                       closes := 1\<rparr>,
       DefaultMessageType = 2, reader = None, closeOnce = True\<rparr>) \<and>
   Close wire_deps 9 (snd (Close wire_deps 7 (NewConn wire0 :: (wire, unit) Conn))) =
     (None, snd (Close wire_deps 7 (NewConn wire0 :: (wire, unit) Conn))) \<and>
   fst (Close_js (NewConn_js sock0)) = None \<and>
   closeSignal (snd (Close_js (NewConn_js sock0)))"
proof -
  let ?c = "NewConn wire0 :: (wire, unit) Conn"
  have wc: "WriteControl wire_deps CloseMessage
              (FormatCloseMessage wire_deps CloseNormalClosure ''closed'')
              (7 + GracefulCloseTimeout wire_deps) (ws_Conn ?c) =
            (None, wire0\<lparr>control := [(8, [3, 232, 99, 108, 111, 115, 101, 100], 100000007)]\<rparr>)"
    by (simp add: wire_defs NewConn_def CloseMessage_def CloseNormalClosure_def)
  have cc: "ConnClose wire_deps
              (wire0\<lparr>control := [(8, [3, 232, 99, 108, 111, 115, 101, 100], 100000007)]\<rparr>) =
            (None, wire0\<lparr>control := [(8, [3, 232, 99, 108, 111, 115, 101, 100], 100000007)],
                          closes := 1\<rparr>)"
    by (simp add: wire_defs)
  have fresh: "\<not> closeOnce ?c"
    by (simp add: NewConn_def)
  note inst = Close_once [where d = wire_deps and c = ?c and now = 7 and now' = 9]
  from inst [THEN conjunct1, rule_format, OF fresh wc cc]
  have first: "Close wire_deps 7 ?c =
      (None,
       \<lparr>ws_Conn = wire0\<lparr>control := [(8, [3, 232, 99, 108, 111, 115, 101, 100], 100000007)],
                        closes := 1\<rparr>,
        DefaultMessageType = 2, reader = None, closeOnce = True\<rparr>)"
    by (simp add: wire_defs NewConn_def BinaryMessage_def)
  from inst [THEN conjunct2, THEN conjunct2, THEN conjunct2, THEN conjunct1]
  have second: "Close wire_deps 9 (snd (Close wire_deps 7 ?c)) = (None, snd (Close wire_deps 7 ?c))" .
  from Close_once [where k = "NewConn_js sock0", THEN conjunct2, THEN conjunct2, THEN conjunct2,
      THEN conjunct2]
  have "fst (Close_js (NewConn_js sock0)) = None"
    and "closeSignal (snd (Close_js (NewConn_js sock0))) =
           (closeSignal (NewConn_js sock0) \<or> \<not> closeOnce_js (NewConn_js sock0))"
    by simp_all
  then have "fst (Close_js (NewConn_js sock0)) = None"
    and "closeSignal (snd (Close_js (NewConn_js sock0)))"
    by (simp_all add: NewConn_js_def setUpHandlers_def)
  with first second show ?thesis by simp
qed

text \<open>
  Counterexample to C6 as stated. On the js/wasm backend a second \<^verbatim>\<open>Close\<close> of a fresh
  connection is not without effect: it calls \<^verbatim>\<open>close()\<close> on the socket again and removes the
  three listeners again.
\<close>

theorem Close_once_counterexample:
  "calls (js_Value (snd (Close_js (snd (Close_js (NewConn_js sock0)))))) =
     calls (js_Value (snd (Close_js (NewConn_js sock0)))) @
       [[''close''], [''removeEventListener'', ''message''],
        [''removeEventListener'', ''close''], [''removeEventListener'', ''error'']] \<and>
   snd (Close_js (snd (Close_js (NewConn_js sock0)))) \<noteq> snd (Close_js (NewConn_js sock0))"
proof -
  note twice = Close_js_twice_calls
  then have "snd (Close_js (snd (Close_js (NewConn_js sock0)))) \<noteq> snd (Close_js (NewConn_js sock0))"
    by (metis append_self_conv list.distinct(1))
  with twice show ?thesis by simp
qed

text \<open>
  Claim C10. On the js/wasm backend \<^verbatim>\<open>Close\<close> returns nil on every connection: on a fresh
  one (the first call) and on one that has been closed before.
\<close>

theorem Close_js_returns_nil:
  "fst (Close_js c) = None \<and> fst (Close_js (NewConn_js raw)) = None \<and>
   fst (Close_js (snd (Close_js c))) = None"
  by (simp add: Close_js_def Let_def)

theorem Close_js_returns_nil_witness:
  "fst (Close_js (NewConn_js sock0)) = None \<and>
   fst (Close_js (dispatch (CloseEvent cleanClose) (NewConn_js sock0))) = None"
  using Close_js_returns_nil [of "NewConn_js sock0" sock0]
    Close_js_returns_nil [of "dispatch (CloseEvent cleanClose) (NewConn_js sock0)" sock0]
  by simp

section \<open>js/wasm backend: the deadlines\<close>

text \<open>
  Claim C9. On the js/wasm backend the three deadline setters return nil for every time
  and leave the connection as it is; a \<^verbatim>\<open>Read\<close> (under any schedule) or a \<^verbatim>\<open>Close\<close> after
  one of them does what it would have done without it.
\<close>

theorem deadlines_js_do_nothing:
  "SetDeadline_js t c = (None, c) \<and> SetReadDeadline_js t c = (None, c) \<and>
   SetWriteDeadline_js t c = (None, c) \<and>
   Read_js b sched (snd (SetReadDeadline_js t c)) = Read_js b sched c \<and>
   Read_js b sched (snd (SetDeadline_js t c)) = Read_js b sched c \<and>
   Close_js (snd (SetWriteDeadline_js t c)) = Close_js c \<and>
   Close_js (snd (SetDeadline_js t c)) = Close_js c"
  by (simp add: SetDeadline_js_def SetReadDeadline_js_def SetWriteDeadline_js_def)

theorem deadlines_js_do_nothing_witness:
  "SetDeadline_js 0 (NewConn_js sock0) = (None, NewConn_js sock0) \<and>
   SetReadDeadline_js 1 (NewConn_js sock0) = (None, NewConn_js sock0) \<and>
   SetWriteDeadline_js (- 1) (NewConn_js sock0) = (None, NewConn_js sock0)"
  using deadlines_js_do_nothing [of 0 "NewConn_js sock0"]
    deadlines_js_do_nothing [of 1 "NewConn_js sock0"]
    deadlines_js_do_nothing [of "- 1" "NewConn_js sock0"]
  by simp

section \<open>js/wasm backend: Read after the close event\<close>

text \<open>
  The close signal and its once-guard go together: on a new connection neither is set,
  and every operation and every event keeps the guard from being set without the signal.
\<close>

lemma once_signal_NewConn_js:
  "closeOnce_js (NewConn_js raw) \<longrightarrow> closeSignal (NewConn_js raw)"
  by (simp add: NewConn_js_def setUpHandlers_def)

lemma once_signal_Close_js:
  "closeOnce_js c \<longrightarrow> closeSignal c \<Longrightarrow>
   closeOnce_js (snd (Close_js c)) \<longrightarrow> closeSignal (snd (Close_js c))"
  by (auto simp: Close_js_def Let_def releaseHandlers_keeps signalClose_fires)

lemma once_signal_dispatch:
  "closeOnce_js c \<longrightarrow> closeSignal c \<Longrightarrow>
   closeOnce_js (dispatch e c) \<longrightarrow> closeSignal (dispatch e c)"
  by (cases e)
    (auto simp: dispatch_def on_message_def on_close_def on_error_def Close_js_def Let_def
      releaseHandlers_keeps signalClose_fires)

lemma once_signal_readAfterErr:
  "closeOnce_js (snd (readAfterErr b c)) = closeOnce_js c"
  "closeSignal (snd (readAfterErr b c)) = closeSignal c"
  by (auto simp: readAfterErr_def split: prod.splits)

lemma once_signal_Read_loop_js:
  "Read_loop_js b sched c = Some (res, c') \<Longrightarrow> closeOnce_js c \<longrightarrow> closeSignal c \<Longrightarrow>
   closeOnce_js c' \<longrightarrow> closeSignal c'"
proof (induction sched arbitrary: c)
  case Nil
  then show ?case by (auto split: prod.splits if_splits)
next
  case (Cons s sched)
  obtain bs0 err0 rest where rd: "Buffer_Read b (currData c) = ((bs0, err0), rest)"
    by (metis prod.exhaust)
  show ?case
  proof (cases "bs0 = []")
    case False
    with Cons.prems rd show ?thesis by auto
  next
    case True
    show ?thesis
    proof (cases s)
      case TakeData
      with Cons.prems rd True
      have "Read_loop_js b sched (c\<lparr>currData := rest, dataSignal := False\<rparr>) = Some (res, c')"
        by (auto split: if_splits)
      with Cons.IH [of "c\<lparr>currData := rest, dataSignal := False\<rparr>"] Cons.prems(2)
      show ?thesis by simp
    next
      case TakeClose
      with Cons.prems rd True have "c' = snd (readAfterErr b (c\<lparr>currData := rest\<rparr>))"
        by (auto split: if_splits)
      with Cons.prems(2) show ?thesis by (simp add: once_signal_readAfterErr)
    next
      case (Host e)
      with Cons.prems rd True
      have "Read_loop_js b sched (dispatch e (c\<lparr>currData := rest\<rparr>)) = Some (res, c')"
        by (auto split: if_splits)
      moreover have "closeOnce_js (dispatch e (c\<lparr>currData := rest\<rparr>)) \<longrightarrow>
          closeSignal (dispatch e (c\<lparr>currData := rest\<rparr>))"
        using Cons.prems(2) by (intro once_signal_dispatch) simp
      ultimately show ?thesis using Cons.IH by blast
    qed
  qed
qed

lemma once_signal_Read_js:
  "Read_js b sched c = Some (res, c') \<Longrightarrow> closeOnce_js c \<longrightarrow> closeSignal c \<Longrightarrow>
   closeOnce_js c' \<longrightarrow> closeSignal c'"
  using once_signal_Read_loop_js [of b sched c res c'] once_signal_readAfterErr [of b c]
  by (auto simp: Read_js_def simp del: Read_loop_js.simps split: if_splits)

lemma readAfterErr_drained:
  "currData c = [] \<Longrightarrow>
   readAfterErr b c = (([], if firstErr c \<noteq> None then firstErr c else Some EOF), c)"
  by (simp add: readAfterErr_def Buffer_Read_def)

lemma Read_loop_js_drained:
  "closeSignal c \<Longrightarrow> currData c = [] \<Longrightarrow> Read_loop_js b sched c = Some (res, c') \<Longrightarrow>
   res = ([], if firstErr c \<noteq> None then firstErr c else Some EOF) \<and>
   closeSignal c' \<and> currData c' = [] \<and> firstErr c' = firstErr c"
proof (induction sched arbitrary: c)
  case Nil
  then show ?case by (simp add: Buffer_Read_def)
next
  case (Cons s sched)
  show ?case
  proof (cases s)
    case TakeData
    with Cons.prems have "dataSignal c"
      and "Read_loop_js b sched (c\<lparr>currData := [], dataSignal := False\<rparr>) = Some (res, c')"
      by (auto simp: Buffer_Read_def split: if_splits)
    with Cons.IH [of "c\<lparr>currData := [], dataSignal := False\<rparr>"] Cons.prems(1)
    show ?thesis by simp
  next
    case TakeClose
    with Cons.prems show ?thesis
      by (auto simp: Buffer_Read_def readAfterErr_drained split: if_splits)
  next
    case (Host e)
    with Cons.prems show ?thesis
      by (simp add: Buffer_Read_def)
  qed
qed

lemma Read_js_clean_close:
  "Read_js 8 [] (dispatch (CloseEvent cleanClose) (NewConn_js sock0)) =
     Some (([], Some (Errorf ''JavaScript error: (close) unexpected code: 1000'')),
           dispatch (CloseEvent cleanClose) (NewConn_js sock0))"
  by (simp add: js_defs Let_def)

text \<open>
  Claim C1, as amended. When the close event reaches the close handler of a connection
  (on which the once-guard is not set without the close signal, as on every connection
  that the operations and events above produce from a new one), the close signal is fired,
  the buffered bytes are kept, and the error that \<^verbatim>\<open>errorEventToError\<close> builds from the event
  is latched; that error is a \<^verbatim>\<open>fmt.Errorf\<close> value, never \<^verbatim>\<open>io.EOF\<close>, whatever the status
  code.
  Once the close signal is fired and the buffer is drained, every \<^verbatim>\<open>Read\<close> that returns
  gives zero bytes and the latched error, or \<^verbatim>\<open>io.EOF\<close> if no error is latched, and leaves
  the connection signalled, drained and with the same latched error, so the same holds
  for every later \<^verbatim>\<open>Read\<close>; and a \<^verbatim>\<open>Read\<close> does return there. So after the peer's close
  event \<^verbatim>\<open>Read\<close> returns the latched error of the event; it returns \<^verbatim>\<open>io.EOF\<close> only on a
  connection closed with no error latched, as by a local \<^verbatim>\<open>Close\<close>.
\<close>

theorem Read_js_after_close_event:
  "(''close'' \<in> set (listeners (js_Value c)) \<longrightarrow> (closeOnce_js c \<longrightarrow> closeSignal c) \<longrightarrow>
      closeSignal (dispatch (CloseEvent val) c) \<and>
      firstErr (dispatch (CloseEvent val) c) = Some (errorEventToError val) \<and>
      currData (dispatch (CloseEvent val) c) = currData c \<and>
      errorEventToError val \<noteq> EOF) \<and>
   (closeSignal k \<longrightarrow> currData k = [] \<longrightarrow> Read_js b sched k = Some (res, k') \<longrightarrow>
      res = ([], if firstErr k \<noteq> None then firstErr k else Some EOF) \<and>
      closeSignal k' \<and> currData k' = [] \<and> firstErr k' = firstErr k) \<and>
   (closeSignal k \<longrightarrow> currData k = [] \<longrightarrow>
      Read_js b (TakeClose # sched) k =
        Some (([], if firstErr k \<noteq> None then firstErr k else Some EOF), k))"
proof (intro conjI impI)
  assume inv: "closeOnce_js c \<longrightarrow> closeSignal c"
  assume "''close'' \<in> set (listeners (js_Value c))"
  then have d: "dispatch (CloseEvent val) c =
      on_close val (c\<lparr>js_Value := (js_Value c)\<lparr>readyState := webSocketStateClosed\<rparr>\<rparr>)"
    by (simp add: dispatch_def)
  show "closeSignal (dispatch (CloseEvent val) c)"
    unfolding d on_close_def using inv by (auto simp: releaseHandlers_keeps signalClose_fires)
  show "firstErr (dispatch (CloseEvent val) c) = Some (errorEventToError val)"
    unfolding d on_close_def by (simp add: releaseHandlers_keeps)
  show "currData (dispatch (CloseEvent val) c) = currData c"
    unfolding d on_close_def by (simp add: releaseHandlers_keeps signalClose_fires)
  show "errorEventToError val \<noteq> EOF"
    by (simp add: errorEventToError_def Let_def)
next
  assume a: "closeSignal k" "currData k = []" "Read_js b sched k = Some (res, k')"
  have "res = ([], if firstErr k \<noteq> None then firstErr k else Some EOF) \<and>
      closeSignal k' \<and> currData k' = [] \<and> firstErr k' = firstErr k"
  proof (cases "checkOpen k \<noteq> None")
    case True
    with a show ?thesis by (auto simp: Read_js_def readAfterErr_drained)
  next
    case False
    with a have "Read_loop_js b sched k = Some (res, k')" by (simp add: Read_js_def)
    with a show ?thesis using Read_loop_js_drained by blast
  qed
  then show "res = ([], if firstErr k \<noteq> None then firstErr k else Some EOF)"
    and "closeSignal k'" and "currData k' = []" and "firstErr k' = firstErr k"
    by simp_all
next
  assume "closeSignal k" "currData k = []"
  then show "Read_js b (TakeClose # sched) k =
        Some (([], if firstErr k \<noteq> None then firstErr k else Some EOF), k)"
    by (simp add: Read_js_def readAfterErr_drained Buffer_Read_def)
qed

text \<open>
  A fresh connection receives the clean close event and is then read, once with the
  socket reporting the closed state and once through the \<^verbatim>\<open>select\<close>.
\<close>

theorem Read_js_after_close_event_witness:
  "firstErr (dispatch (CloseEvent cleanClose) (NewConn_js sock0)) =
     Some (errorEventToError cleanClose) \<and>
   Read_js 8 [TakeClose] (dispatch (CloseEvent cleanClose) (NewConn_js sock0)) =
     Some (([], Some (errorEventToError cleanClose)),
           dispatch (CloseEvent cleanClose) (NewConn_js sock0))"
proof -
  let ?c = "NewConn_js sock0"
  let ?k = "dispatch (CloseEvent cleanClose) ?c"
  have l: "''close'' \<in> set (listeners (js_Value ?c))"
    by (simp add: js_defs)
  have i: "closeOnce_js ?c \<longrightarrow> closeSignal ?c"
    by (simp add: js_defs)
  note inst = Read_js_after_close_event [where c = ?c and val = cleanClose and k = ?k and b = 8
      and sched = "[]"]
  from inst [THEN conjunct1] l i
  have sig: "closeSignal ?k" and err: "firstErr ?k = Some (errorEventToError cleanClose)"
    and data: "currData ?k = currData ?c"
    by simp_all
  have empty: "currData ?k = []"
    using data by (simp add: js_defs)
  from inst [THEN conjunct2, THEN conjunct2, rule_format, OF sig empty] err
  have "Read_js 8 [TakeClose] ?k = Some (([], Some (errorEventToError cleanClose)), ?k)"
    by simp
  with err show ?thesis by simp
qed

text \<open>
  Counterexample to C1 as stated. A fresh connection on an open socket receives the close
  event of a clean shutdown (code 1000); nothing is buffered. The next \<^verbatim>\<open>Read\<close> returns
  zero bytes and the error latched from the event, which is not \<^verbatim>\<open>io.EOF\<close>, and leaves the
  connection as it was, so every later \<^verbatim>\<open>Read\<close> does the same.
\<close>

theorem Read_js_after_close_event_counterexample:
  "Read_js 8 [] (dispatch (CloseEvent cleanClose) (NewConn_js sock0)) =
     Some (([], Some (Errorf ''JavaScript error: (close) unexpected code: 1000'')),
           dispatch (CloseEvent cleanClose) (NewConn_js sock0)) \<and>
   currData (dispatch (CloseEvent cleanClose) (NewConn_js sock0)) = [] \<and>
   Errorf ''JavaScript error: (close) unexpected code: 1000'' \<noteq> EOF"
proof -
  have "currData (dispatch (CloseEvent cleanClose) (NewConn_js sock0)) = []"
    by (simp add: js_defs Let_def)
  with Read_js_clean_close show ?thesis by simp
qed

end
